theory Spec2Isabelle
  imports Main "HOL-Library.Word"
begin

section \<open>JavaScript values, errors, promises and the Result envelope\<close>

text \<open>
  The browser node (modules/browser-node/src/index.ts) is TypeScript: its type annotations
  and its \<open>as CreateUpdateDetails\<close> casts are erased before the code runs. The values it
  receives from its caller and from the engine are therefore modelled as untyped JSON-like
  values, and every property read is modelled with the failure it has at run time.
\<close>

datatype jsval =
    JUndefined
  | JNull
  | JBool bool
  | JNum int
  | JStr string
  | JArr "jsval list"
  | JObj "(string \<times> jsval) list"

text \<open>
  \<open>NodeError.reasons\<close> is declared in @connext/vector-types, which is not part of the
  sources at hand. The only member the browser node names is \<open>MultinodeProhibitted\<close>;
  every other member is kept apart from it under \<open>OtherReason\<close>.
\<close>

datatype node_error_reason = MultinodeProhibitted | OtherReason string

text \<open>
  What a \<open>throw\<close> (or a rejected promise) carries: \<open>new Error(msg)\<close>, the \<open>TypeError\<close>
  of a property read on \<open>undefined\<close> or \<open>null\<close> and of a call of something that is not a
  function, \<open>new NodeError(reason, ctx)\<close>, or any other value.
\<close>

datatype js_error =
    Error string
  | TypeError
  | NodeError node_error_reason jsval
  | Thrown jsval

text \<open>
  \<open>Result.ok(v)\<close> and \<open>Result.fail(e)\<close> of @connext/vector-types: the tagged
  success-or-failure envelope every node method returns.
\<close>

datatype 'a result = Result_ok 'a | Result_fail js_error

text \<open>The settled state of the promise an operation returns.\<close>

datatype 'a promise = Resolved 'a | Rejected js_error

subsection \<open>Property reads\<close>

text \<open>
  \<open>v.k\<close>: a \<open>TypeError\<close> on \<open>undefined\<close> and \<open>null\<close>; on an object the value bound to
  \<open>k\<close>, or \<open>undefined\<close> when \<open>k\<close> is not bound. The names this code reads
  (\<open>channelAddress\<close>, \<open>latestUpdate\<close>, \<open>details\<close>, \<open>transferId\<close>, \<open>meta\<close>,
  \<open>routingId\<close>, \<open>channel\<close>, \<open>transactionHash\<close>, \<open>counterparty\<close>, \<open>chainId\<close>) are
  not properties of booleans, numbers, strings or arrays, so a read of them there yields
  \<open>undefined\<close>.
\<close>

fun js_get :: "jsval \<Rightarrow> string \<Rightarrow> js_error + jsval" where
  "js_get JUndefined k = Inl TypeError"
| "js_get JNull k = Inl TypeError"
| "js_get (JObj kvs) k = Inr (case map_of kvs k of Some v \<Rightarrow> v | None \<Rightarrow> JUndefined)"
| "js_get v k = Inr JUndefined"

text \<open>\<open>v?.k\<close>: \<open>undefined\<close> when \<open>v\<close> is \<open>undefined\<close> or \<open>null\<close>, else \<open>v.k\<close>.\<close>

fun js_get_optional :: "jsval \<Rightarrow> string \<Rightarrow> js_error + jsval" where
  "js_get_optional JUndefined k = Inr JUndefined"
| "js_get_optional JNull k = Inr JUndefined"
| "js_get_optional v k = js_get v k"

text \<open>Sequencing of steps that may throw: the first throw ends the evaluation.\<close>

definition and_then :: "js_error + 'a \<Rightarrow> ('a \<Rightarrow> js_error + 'b) \<Rightarrow> js_error + 'b" where
  "and_then r f = (case r of Inl e \<Rightarrow> Inl e | Inr v \<Rightarrow> f v)"

text \<open>
  \<open>res.map(chan => chan.channelAddress)\<close>: \<open>undefined\<close> and \<open>null\<close> have no properties
  and the \<open>map\<close> of any other value that is not an array is not a function, a \<open>TypeError\<close>
  in both cases; on an array the callback runs on the elements from left to right and its
  first throw ends the call.
\<close>

fun map_channelAddress :: "jsval list \<Rightarrow> js_error + jsval list" where
  "map_channelAddress [] = Inr []"
| "map_channelAddress (chan # chans) =
     and_then (js_get chan ''channelAddress'') (\<lambda>a.
     and_then (map_channelAddress chans) (\<lambda>as. Inr (a # as)))"

fun js_map_channelAddress :: "jsval \<Rightarrow> js_error + jsval" where
  "js_map_channelAddress (JArr chans) =
     and_then (map_channelAddress chans) (\<lambda>as. Inr (JArr as))"
| "js_map_channelAddress v = Inl TypeError"

section \<open>The engine\<close>

datatype ChannelRpcMethod =
    chan_getChannelStateByParticipants
  | chan_getChannelState
  | chan_getChannelStates
  | chan_getTransferStateByRoutingId
  | chan_getTransferStatesByRoutingId
  | chan_getTransferState
  | chan_getActiveTransfers
  | chan_requestSetup
  | chan_deposit
  | chan_requestCollateral
  | chan_createTransfer
  | chan_resolveTransfer
  | chan_withdraw
  | chan_dispute
  | chan_defund
  | chan_disputeTransfer
  | chan_defundTransfer

record rpc_request =
  rpc_method :: ChannelRpcMethod
  rpc_params :: jsval

text \<open>
  Modelled from the spec: \<open>constructRpcRequest\<close> is a helper of @connext/vector-utils and
  is not under src/. The request it builds carries the method and the parameters it was
  given, which is all the node-facing surface of the specification speaks of.
\<close>

definition constructRpcRequest :: "ChannelRpcMethod \<Rightarrow> jsval \<Rightarrow> rpc_request" where
  "constructRpcRequest m p = \<lparr>rpc_method = m, rpc_params = p\<rparr>"

text \<open>
  The engine (\<open>IVectorEngine\<close>) is a collaborator of the browser node: \<open>request\<close> is the
  settled outcome of \<open>await this.engine.request(rpc)\<close>, either the value the promise
  resolves to (\<open>Inr\<close>) or what it rejects with (\<open>Inl\<close>). Nothing is assumed about it.
\<close>

record engine =
  publicIdentifier :: string
  signerAddress :: string
  request :: "rpc_request \<Rightarrow> js_error + jsval"

text \<open>
  An operation of the node yields the settled promise together with the engine requests
  it issued, in order.
\<close>

type_synonym node_response = "jsval result promise \<times> rpc_request list"

text \<open>
  The body shared by the methods that call the engine:
  \<^verbatim>\<open>
  try {
    const res = await this.engine.request(rpc);
    return Result.ok(<payload built from res>);
  } catch (e) {
    return Result.fail(e);
  }
  \<close>
  The payload is built inside the \<open>try\<close> block, so a throw while building it is caught too.
\<close>

definition try_request ::
  "engine \<Rightarrow> rpc_request \<Rightarrow> (jsval \<Rightarrow> js_error + jsval) \<Rightarrow> node_response" where
  "try_request this rpc build =
     (case request this rpc of
        Inl e \<Rightarrow> (Resolved (Result_fail e), [rpc])
      | Inr res \<Rightarrow>
          (case build res of
             Inl e \<Rightarrow> (Resolved (Result_fail e), [rpc])
           | Inr payload \<Rightarrow> (Resolved (Result_ok payload), [rpc])))"

section \<open>BrowserNode\<close>

definition createNode :: "engine \<Rightarrow> jsval \<Rightarrow> node_response" where
  "createNode this params =
     (Resolved (Result_fail (NodeError MultinodeProhibitted (JObj [(''params'', params)]))), [])"

text \<open>
  \<open>getStateChannelByParticipants\<close> reads \<open>params.counterparty\<close> and \<open>params.chainId\<close>
  while it builds the request, before the \<open>try\<close> block: a throw there rejects the promise
  of the \<open>async\<close> method and no request is issued.
\<close>

definition getStateChannelByParticipants :: "engine \<Rightarrow> jsval \<Rightarrow> node_response" where
  "getStateChannelByParticipants this params =
     (case and_then (js_get params ''counterparty'') (\<lambda>alice.
           and_then (js_get params ''chainId'') (\<lambda>chainId.
           Inr (constructRpcRequest chan_getChannelStateByParticipants
                  (JObj [(''alice'', alice),
                         (''bob'', JStr (publicIdentifier this)),
                         (''chainId'', chainId)])))) of
        Inl e \<Rightarrow> (Rejected e, [])
      | Inr rpc \<Rightarrow> try_request this rpc Inr)"

definition getStateChannel :: "engine \<Rightarrow> jsval \<Rightarrow> node_response" where
  "getStateChannel this params =
     try_request this (constructRpcRequest chan_getChannelState params) Inr"

definition getStateChannels :: "engine \<Rightarrow> node_response" where
  "getStateChannels this =
     try_request this (constructRpcRequest chan_getChannelStates JUndefined)
       js_map_channelAddress"

definition getTransferByRoutingId :: "engine \<Rightarrow> jsval \<Rightarrow> node_response" where
  "getTransferByRoutingId this params =
     try_request this (constructRpcRequest chan_getTransferStateByRoutingId params) Inr"

definition getTransfersByRoutingId :: "engine \<Rightarrow> jsval \<Rightarrow> node_response" where
  "getTransfersByRoutingId this params =
     try_request this (constructRpcRequest chan_getTransferStatesByRoutingId params) Inr"

definition getTransfer :: "engine \<Rightarrow> jsval \<Rightarrow> node_response" where
  "getTransfer this params =
     try_request this (constructRpcRequest chan_getTransferState params) Inr"

definition getActiveTransfers :: "engine \<Rightarrow> jsval \<Rightarrow> node_response" where
  "getActiveTransfers this params =
     try_request this (constructRpcRequest chan_getActiveTransfers params) Inr"

text \<open>\<open>setup\<close> (the name is a reserved word of the theory language, hence \<open>node_setup\<close>).\<close>

definition node_setup :: "engine \<Rightarrow> jsval \<Rightarrow> node_response" where
  "node_setup this params =
     try_request this (constructRpcRequest chan_requestSetup params) Inr"

text \<open>
  \<open>internalSetup\<close> and \<open>sendDepositTx\<close> are \<open>async\<close> methods whose body is a single
  \<open>throw new Error(...)\<close>: the promise they return is rejected.
\<close>

definition internalSetup :: "engine \<Rightarrow> node_response" where
  "internalSetup this = (Rejected (Error ''Method not implemented''), [])"

definition sendDepositTx :: "engine \<Rightarrow> node_response" where
  "sendDepositTx this = (Rejected (Error ''Method not implemented.''), [])"

definition reconcileDeposit :: "engine \<Rightarrow> jsval \<Rightarrow> node_response" where
  "reconcileDeposit this params =
     try_request this (constructRpcRequest chan_deposit params) (\<lambda>res.
       and_then (js_get res ''channelAddress'') (\<lambda>channelAddress.
       Inr (JObj [(''channelAddress'', channelAddress)])))"

definition requestCollateral :: "engine \<Rightarrow> jsval \<Rightarrow> node_response" where
  "requestCollateral this params =
     try_request this (constructRpcRequest chan_requestCollateral params) (\<lambda>res.
       and_then (js_get params ''channelAddress'') (\<lambda>channelAddress.
       Inr (JObj [(''channelAddress'', channelAddress)])))"

text \<open>\<open>res.latestUpdate.details\<close>, read afresh for each property of the payload.\<close>

definition latestUpdate_details :: "jsval \<Rightarrow> js_error + jsval" where
  "latestUpdate_details res =
     and_then (js_get res ''latestUpdate'') (\<lambda>latestUpdate. js_get latestUpdate ''details'')"

definition conditionalTransfer :: "engine \<Rightarrow> jsval \<Rightarrow> node_response" where
  "conditionalTransfer this params =
     try_request this (constructRpcRequest chan_createTransfer params) (\<lambda>res.
       and_then (js_get res ''channelAddress'') (\<lambda>channelAddress.
       and_then (latestUpdate_details res) (\<lambda>details.
       and_then (js_get details ''transferId'') (\<lambda>transferId.
       and_then (latestUpdate_details res) (\<lambda>details'.
       and_then (js_get details' ''meta'') (\<lambda>meta.
       and_then (js_get_optional meta ''routingId'') (\<lambda>routingId.
       Inr (JObj [(''channelAddress'', channelAddress),
                  (''transferId'', transferId),
                  (''routingId'', routingId)]))))))))"

definition resolveTransfer :: "engine \<Rightarrow> jsval \<Rightarrow> node_response" where
  "resolveTransfer this params =
     try_request this (constructRpcRequest chan_resolveTransfer params) (\<lambda>res.
       and_then (js_get res ''channelAddress'') (\<lambda>channelAddress.
       and_then (latestUpdate_details res) (\<lambda>details.
       and_then (js_get details ''transferId'') (\<lambda>transferId.
       and_then (latestUpdate_details res) (\<lambda>details'.
       and_then (js_get details' ''meta'') (\<lambda>meta.
       and_then (js_get_optional meta ''routingId'') (\<lambda>routingId.
       Inr (JObj [(''channelAddress'', channelAddress),
                  (''transferId'', transferId),
                  (''routingId'', routingId)]))))))))"

definition withdraw :: "engine \<Rightarrow> jsval \<Rightarrow> node_response" where
  "withdraw this params =
     try_request this (constructRpcRequest chan_withdraw params) (\<lambda>res.
       and_then (js_get res ''channel'') (\<lambda>channel.
       and_then (js_get channel ''channelAddress'') (\<lambda>channelAddress.
       and_then (js_get res ''channel'') (\<lambda>channel'.
       and_then (latestUpdate_details channel') (\<lambda>details.
       and_then (js_get details ''transferId'') (\<lambda>transferId.
       and_then (js_get res ''transactionHash'') (\<lambda>transactionHash.
       Inr (JObj [(''channelAddress'', channelAddress),
                  (''transferId'', transferId),
                  (''transactionHash'', transactionHash)]))))))))"

text \<open>The payload of the four dispute methods: \<open>{ txHash: res.transactionHash }\<close>.\<close>

definition txHash_payload :: "jsval \<Rightarrow> js_error + jsval" where
  "txHash_payload res =
     and_then (js_get res ''transactionHash'') (\<lambda>transactionHash.
     Inr (JObj [(''txHash'', transactionHash)]))"

definition sendDisputeChannelTx :: "engine \<Rightarrow> jsval \<Rightarrow> node_response" where
  "sendDisputeChannelTx this params =
     try_request this (constructRpcRequest chan_dispute params) txHash_payload"

definition sendDefundChannelTx :: "engine \<Rightarrow> jsval \<Rightarrow> node_response" where
  "sendDefundChannelTx this params =
     try_request this (constructRpcRequest chan_defund params) txHash_payload"

definition sendDisputeTransferTx :: "engine \<Rightarrow> jsval \<Rightarrow> node_response" where
  "sendDisputeTransferTx this params =
     try_request this (constructRpcRequest chan_disputeTransfer params) txHash_payload"

definition sendDefundTransferTx :: "engine \<Rightarrow> jsval \<Rightarrow> node_response" where
  "sendDefundTransferTx this params =
     try_request this (constructRpcRequest chan_defundTransfer params) txHash_payload"

subsection \<open>The methods as one table\<close>

text \<open>
  The Result-returning methods of \<open>INodeService\<close> that \<open>BrowserNode\<close> implements, and
  \<open>invoke m this params\<close> for \<open>await node.m(params)\<close>. The methods declared without a
  parameter ignore the argument.
\<close>

datatype node_method =
    CreateNode
  | GetStateChannelByParticipants
  | GetStateChannel
  | GetStateChannels
  | GetTransferByRoutingId
  | GetTransfersByRoutingId
  | GetTransfer
  | GetActiveTransfers
  | Setup
  | InternalSetup
  | SendDepositTx
  | ReconcileDeposit
  | RequestCollateral
  | ConditionalTransfer
  | ResolveTransfer
  | Withdraw
  | SendDisputeChannelTx
  | SendDefundChannelTx
  | SendDisputeTransferTx
  | SendDefundTransferTx

fun invoke :: "node_method \<Rightarrow> engine \<Rightarrow> jsval \<Rightarrow> node_response" where
  "invoke CreateNode this params = createNode this params"
| "invoke GetStateChannelByParticipants this params = getStateChannelByParticipants this params"
| "invoke GetStateChannel this params = getStateChannel this params"
| "invoke GetStateChannels this params = getStateChannels this"
| "invoke GetTransferByRoutingId this params = getTransferByRoutingId this params"
| "invoke GetTransfersByRoutingId this params = getTransfersByRoutingId this params"
| "invoke GetTransfer this params = getTransfer this params"
| "invoke GetActiveTransfers this params = getActiveTransfers this params"
| "invoke Setup this params = node_setup this params"
| "invoke InternalSetup this params = internalSetup this"
| "invoke SendDepositTx this params = sendDepositTx this"
| "invoke ReconcileDeposit this params = reconcileDeposit this params"
| "invoke RequestCollateral this params = requestCollateral this params"
| "invoke ConditionalTransfer this params = conditionalTransfer this params"
| "invoke ResolveTransfer this params = resolveTransfer this params"
| "invoke Withdraw this params = withdraw this params"
| "invoke SendDisputeChannelTx this params = sendDisputeChannelTx this params"
| "invoke SendDefundChannelTx this params = sendDefundChannelTx this params"
| "invoke SendDisputeTransferTx this params = sendDisputeTransferTx this params"
| "invoke SendDefundTransferTx this params = sendDefundTransferTx this params"

subsection \<open>The exposed operations, declaratively\<close>

text \<open>
  The definitions above follow the source statement by statement. The ones below do not:
  they say what an exposed operation is expected to issue and to return, as a table, and
  the code is compared with them below. \<open>readable v\<close>: a property of \<open>v\<close> can be read.
  \<open>field v k\<close>: the property \<open>k\<close> of \<open>v\<close>, \<open>undefined\<close> where there is none.
\<close>

definition readable :: "jsval \<Rightarrow> bool" where
  "readable v = (v \<noteq> JUndefined \<and> v \<noteq> JNull)"

definition field :: "jsval \<Rightarrow> string \<Rightarrow> jsval" where
  "field v k =
     (case v of
        JObj kvs \<Rightarrow> (case map_of kvs k of Some x \<Rightarrow> x | None \<Rightarrow> JUndefined)
      | _ \<Rightarrow> JUndefined)"

text \<open>The details of a channel's latest update.\<close>

definition details_of :: "jsval \<Rightarrow> jsval" where
  "details_of chan = field (field chan ''latestUpdate'') ''details''"

text \<open>The \<open>ChannelRpcMethod\<close> that corresponds to each exposed operation.\<close>

fun rpc_method_of :: "node_method \<Rightarrow> ChannelRpcMethod option" where
  "rpc_method_of Setup = Some chan_requestSetup"
| "rpc_method_of ReconcileDeposit = Some chan_deposit"
| "rpc_method_of RequestCollateral = Some chan_requestCollateral"
| "rpc_method_of ConditionalTransfer = Some chan_createTransfer"
| "rpc_method_of ResolveTransfer = Some chan_resolveTransfer"
| "rpc_method_of Withdraw = Some chan_withdraw"
| "rpc_method_of SendDisputeChannelTx = Some chan_dispute"
| "rpc_method_of SendDefundChannelTx = Some chan_defund"
| "rpc_method_of SendDisputeTransferTx = Some chan_disputeTransfer"
| "rpc_method_of SendDefundTransferTx = Some chan_defundTransfer"
| "rpc_method_of m = None"

text \<open>
  The success payload of each exposed operation, as a function of the caller's params and
  of the engine's response, and the values whose properties it reads on the way.
\<close>

fun projection :: "node_method \<Rightarrow> jsval \<Rightarrow> jsval \<Rightarrow> jsval" where
  "projection ReconcileDeposit params res =
     JObj [(''channelAddress'', field res ''channelAddress'')]"
| "projection RequestCollateral params res =
     JObj [(''channelAddress'', field params ''channelAddress'')]"
| "projection ConditionalTransfer params res =
     JObj [(''channelAddress'', field res ''channelAddress''),
           (''transferId'', field (details_of res) ''transferId''),
           (''routingId'', field (field (details_of res) ''meta'') ''routingId'')]"
| "projection ResolveTransfer params res =
     JObj [(''channelAddress'', field res ''channelAddress''),
           (''transferId'', field (details_of res) ''transferId''),
           (''routingId'', field (field (details_of res) ''meta'') ''routingId'')]"
| "projection Withdraw params res =
     JObj [(''channelAddress'', field (field res ''channel'') ''channelAddress''),
           (''transferId'', field (details_of (field res ''channel'')) ''transferId''),
           (''transactionHash'', field res ''transactionHash'')]"
| "projection SendDisputeChannelTx params res = JObj [(''txHash'', field res ''transactionHash'')]"
| "projection SendDefundChannelTx params res = JObj [(''txHash'', field res ''transactionHash'')]"
| "projection SendDisputeTransferTx params res = JObj [(''txHash'', field res ''transactionHash'')]"
| "projection SendDefundTransferTx params res = JObj [(''txHash'', field res ''transactionHash'')]"
| "projection m params res = res"

fun dereferenced :: "node_method \<Rightarrow> jsval \<Rightarrow> jsval \<Rightarrow> jsval list" where
  "dereferenced ReconcileDeposit params res = [res]"
| "dereferenced RequestCollateral params res = [params]"
| "dereferenced ConditionalTransfer params res =
     [res, field res ''latestUpdate'', details_of res]"
| "dereferenced ResolveTransfer params res =
     [res, field res ''latestUpdate'', details_of res]"
| "dereferenced Withdraw params res =
     [res, field res ''channel'', field (field res ''channel'') ''latestUpdate'',
      details_of (field res ''channel'')]"
| "dereferenced SendDisputeChannelTx params res = [res]"
| "dereferenced SendDefundChannelTx params res = [res]"
| "dereferenced SendDisputeTransferTx params res = [res]"
| "dereferenced SendDefundTransferTx params res = [res]"
| "dereferenced m params res = []"

subsection \<open>Example engines, channels and params\<close>

definition engine_resolving :: "jsval \<Rightarrow> engine" where
  "engine_resolving res =
     \<lparr>publicIdentifier = ''vector8WxfqTu8EC2FLM6g4y6TgbSrx4EPP9jeDFQk3VBsBM7Jv8NakR'',
      signerAddress = ''0x627306090abaB3A6e1400e9345bC60c78a8BEf57'',
      request = (\<lambda>rpc. Inr res)\<rparr>"

definition engine_rejecting :: "js_error \<Rightarrow> engine" where
  "engine_rejecting e =
     \<lparr>publicIdentifier = ''vector8WxfqTu8EC2FLM6g4y6TgbSrx4EPP9jeDFQk3VBsBM7Jv8NakR'',
      signerAddress = ''0x627306090abaB3A6e1400e9345bC60c78a8BEf57'',
      request = (\<lambda>rpc. Inl e)\<rparr>"

text \<open>A channel as the engine returns it after an update that names a transfer.\<close>

definition channel_after :: "string \<Rightarrow> jsval" where
  "channel_after update_type =
     JObj [(''channelAddress'', JStr ''0xChannel''),
           (''nonce'', JNum 4),
           (''latestUpdate'',
            JObj [(''type'', JStr update_type),
                  (''nonce'', JNum 4),
                  (''details'',
                   JObj [(''transferId'', JStr ''0xTransfer''),
                         (''meta'', JObj [(''routingId'', JStr ''0xRouting'')])])])]"

definition channel_without_update :: jsval where
  "channel_without_update = JObj [(''channelAddress'', JStr ''0xChannel''), (''nonce'', JNum 0)]"

definition transfer_params :: jsval where
  "transfer_params =
     JObj [(''channelAddress'', JStr ''0xChannel''),
           (''assetId'', JStr ''0x0000000000000000000000000000000000000000''),
           (''amount'', JStr ''30'')]"

section \<open>LibERC20\<close>

text \<open>
  modules/contracts/src.sol/lib/LibERC20.sol (Solidity ^0.7.1 with ABIEncoderV2). A call
  of a library function either returns a value or reverts.
\<close>

type_synonym address = "160 word"
type_synonym uint256 = "256 word"
type_synonym bytes = "8 word list"

datatype revert_reason =
    Error_string string
  | Callee_data bytes
  | Empty_revert

datatype 'a evm_outcome = Returned 'a | Reverted revert_reason

text \<open>
  What the library takes from the chain: \<open>Address.isContract\<close> of OpenZeppelin (the
  account has code), the outcome \<open>(success, returnData)\<close> of the low-level
  \<open>assetId.call{gas: gas}(callData)\<close>, the reading of \<open>gasleft()\<close>, and the function
  selector of a signature (the first four bytes of its keccak256 hash).
\<close>

record evm =
  isContract :: "address \<Rightarrow> bool"
  external_call :: "address \<Rightarrow> bytes \<Rightarrow> uint256 \<Rightarrow> bool \<times> bytes"
  gasleft :: uint256
  selector :: "string \<Rightarrow> bytes"

text \<open>
  Modelled from the spec: \<open>LibUtils.revertIfCallFailed\<close> (lib/LibUtils.sol) is not under
  src/. As its name and its use in this transfer-safety shim say, it reverts when the call
  did not succeed, handing on the data the callee returned, and does nothing otherwise.
\<close>

definition revertIfCallFailed :: "bool \<Rightarrow> bytes \<Rightarrow> unit evm_outcome" where
  "revertIfCallFailed success returnData =
     (if success then Returned () else Reverted (Callee_data returnData))"

text \<open>The big-endian number a byte string stands for, and back at a given width.\<close>

definition be_nat :: "bytes \<Rightarrow> nat" where
  "be_nat bs = foldl (\<lambda>acc b. acc * 256 + unat b) 0 bs"

fun be_bytes :: "nat \<Rightarrow> nat \<Rightarrow> bytes" where
  "be_bytes 0 v = []"
| "be_bytes (Suc n) v = be_bytes n (v div 256) @ [of_nat (v mod 256)]"

text \<open>
  \<open>abi.decode(returnData, (bool))\<close> under ABIEncoderV2: the data must hold a 32-byte
  word, and the word must be 0 or 1; the decoder reverts (\<open>None\<close>) otherwise. Bytes after
  the first word are not read.
\<close>

definition abi_decode_bool :: "bytes \<Rightarrow> bool option" where
  "abi_decode_bool returnData =
     (if length returnData < 32 then None
      else if be_nat (take 32 returnData) = 0 then Some False
      else if be_nat (take 32 returnData) = 1 then Some True
      else None)"

text \<open>The two overloads of \<open>wrapCall\<close>: with the gas given, and with the gas left.\<close>

definition wrapCall_gas :: "evm \<Rightarrow> address \<Rightarrow> bytes \<Rightarrow> uint256 \<Rightarrow> bool evm_outcome" where
  "wrapCall_gas env assetId callData gas =
     (if \<not> isContract env assetId then Reverted (Error_string ''LibERC20: NO_CODE'')
      else
        (case external_call env assetId callData gas of
           (success, returnData) \<Rightarrow>
             (case revertIfCallFailed success returnData of
                Reverted r \<Rightarrow> Reverted r
              | Returned u \<Rightarrow>
                  if length returnData = 0 then Returned True
                  else
                    (case abi_decode_bool returnData of
                       None \<Rightarrow> Reverted Empty_revert
                     | Some b \<Rightarrow> Returned b))))"


text \<open>
  \<open>abi.encodeWithSignature(sig, args)\<close> for arguments of the static types \<open>address\<close>
  and \<open>uint256\<close>: the selector, then one 32-byte big-endian word for each argument.
\<close>

datatype abi_value = Abi_address address | Abi_uint256 uint256

fun abi_word :: "abi_value \<Rightarrow> bytes" where
  "abi_word (Abi_address a) = be_bytes 32 (unat a)"
| "abi_word (Abi_uint256 n) = be_bytes 32 (unat n)"

definition encodeWithSignature :: "evm \<Rightarrow> string \<Rightarrow> abi_value list \<Rightarrow> bytes" where
  "encodeWithSignature env sig args = selector env sig @ concat (map abi_word args)"



definition transfer_gas ::
  "evm \<Rightarrow> address \<Rightarrow> address \<Rightarrow> uint256 \<Rightarrow> uint256 \<Rightarrow> bool evm_outcome" where
  "transfer_gas env assetId recipient amount gas =
     wrapCall_gas env assetId
       (encodeWithSignature env ''transfer(address,uint256)''
          [Abi_address recipient, Abi_uint256 amount])
       gas"

definition transfer :: "evm \<Rightarrow> address \<Rightarrow> address \<Rightarrow> uint256 \<Rightarrow> bool evm_outcome" where
  "transfer env assetId recipient amount =
     transfer_gas env assetId recipient amount (gasleft env)"

subsection \<open>An example chain\<close>



section \<open>The channel state machine of the engine\<close>

text \<open>
  Modelled from the spec: the engine (@connext/vector-engine), which validates and applies
  channel updates, is not under src/; the browser node only calls it. What follows is the
  state machine of sections 3 and 4.1 of the specification, as far as the order of updates
  goes: an update carries its type, its target nonce, a payload and the two signatures; a
  channel carries its nonce, its latest update, the rest of its state (balances, merkle
  root) and the history of the updates applied to it.
\<close>

datatype update_type = SetupUpdate | DepositUpdate | CreateUpdate | ResolveUpdate | WithdrawUpdate

record 'd update =
  update_type :: update_type
  update_nonce :: nat
  update_details :: 'd
  signed_by_initiator :: bool
  signed_by_counterparty :: bool

record ('d, 'b) channel_state =
  nonce :: nat
  latestUpdate :: "'d update option"
  balances :: 'b
  applied :: "'d update list"

datatype channel_error =
    InvalidSignatureError
  | NonceMismatchError
  | TransitionRejectedError
  | StaleChannelError

text \<open>
  Modelled from the spec: "re-applying an already-applied update (same nonce, same
  payload) is a no-op returning the same resulting state, not an error".
\<close>

definition already_applied :: "('d, 'b) channel_state \<Rightarrow> 'd update \<Rightarrow> bool" where
  "already_applied s u =
     list_ex (\<lambda>a. update_nonce a = update_nonce u \<and> update_type a = update_type u \<and>
                   update_details a = update_details u) (applied s)"

text \<open>
  Modelled from the spec: \<open>receiveUpdate\<close>. The proposer's signature is verified; the
  target nonce "must equal current nonce + 1"; the resulting state is recomputed from the
  current state, the type and the details by the transition function of the update's type
  (the parameter \<open>transition\<close>, \<open>None\<close> where it rejects); the update is counter-signed
  and the new state persisted with it. The failures are \<open>InvalidSignatureError\<close>,
  \<open>NonceMismatchError\<close> and \<open>TransitionRejectedError\<close>.
\<close>

definition receiveUpdate ::
  "('b \<Rightarrow> 'd update \<Rightarrow> 'b option) \<Rightarrow> ('d, 'b) channel_state \<Rightarrow> 'd update
     \<Rightarrow> channel_error + ('d, 'b) channel_state" where
  "receiveUpdate transition s u =
     (if \<not> signed_by_initiator u then Inl InvalidSignatureError
      else if already_applied s u then Inr s
      else if update_nonce u \<noteq> nonce s + 1 then Inl NonceMismatchError
      else
        (case transition (balances s) u of
           None \<Rightarrow> Inl TransitionRejectedError
         | Some b \<Rightarrow>
             Inr (s\<lparr>nonce := update_nonce u,
                    latestUpdate := Some (u\<lparr>signed_by_counterparty := True\<rparr>),
                    balances := b,
                    applied := applied s @ [u\<lparr>signed_by_counterparty := True\<rparr>]\<rparr>)))"

text \<open>
  Modelled from the spec: \<open>proposeUpdate\<close> "constructs a candidate update against the
  latest known state", whose target nonce is the current nonce plus 1, and signs it; it
  "fails with StaleChannelError if the local nonce is behind the last known applied
  nonce" (\<open>known\<close> below).
\<close>

definition proposeUpdate ::
  "('d, 'b) channel_state \<Rightarrow> nat \<Rightarrow> update_type \<Rightarrow> 'd \<Rightarrow> channel_error + 'd update" where
  "proposeUpdate s known t d =
     (if nonce s < known then Inl StaleChannelError
      else Inr \<lparr>update_type = t, update_nonce = nonce s + 1, update_details = d,
                signed_by_initiator = True, signed_by_counterparty = False\<rparr>)"

text \<open>
  Modelled from the spec: \<open>applyCounterSignedUpdate\<close>, the completion on the initiator's
  side: "verify the counterparty's signature was added to the exact payload proposed,
  persist". The lock of the channel is held from the proposal to the persistence, so the
  state is the one the update was proposed against.
\<close>

definition applyCounterSignedUpdate ::
  "('b \<Rightarrow> 'd update \<Rightarrow> 'b option) \<Rightarrow> ('d, 'b) channel_state \<Rightarrow> 'd update \<Rightarrow> 'd update
     \<Rightarrow> channel_error + ('d, 'b) channel_state" where
  "applyCounterSignedUpdate transition s proposed u =
     (if u \<noteq> proposed\<lparr>signed_by_counterparty := True\<rparr> then Inl InvalidSignatureError
      else
        (case transition (balances s) u of
           None \<Rightarrow> Inl TransitionRejectedError
         | Some b \<Rightarrow>
             Inr (s\<lparr>nonce := update_nonce u, latestUpdate := Some u, balances := b,
                    applied := applied s @ [u]\<rparr>)))"

text \<open>
  Modelled from the spec: what a participant does with its channel, one update at a time
  under the lock of the channel ("exactly one update may be in flight"): it receives the
  counterparty's proposal, or it proposes an update of its own (knowing some applied
  nonce) and completes it with what comes back from the counterparty.
\<close>

datatype 'd channel_action =
    Receive "'d update"
  | Initiate nat update_type 'd "'d update"

fun channel_step ::
  "('b \<Rightarrow> 'd update \<Rightarrow> 'b option) \<Rightarrow> ('d, 'b) channel_state \<Rightarrow> 'd channel_action
     \<Rightarrow> channel_error + ('d, 'b) channel_state" where
  "channel_step transition s (Receive u) = receiveUpdate transition s u"
| "channel_step transition s (Initiate known t d reply) =
     (case proposeUpdate s known t d of
        Inl e \<Rightarrow> Inl e
      | Inr proposed \<Rightarrow> applyCounterSignedUpdate transition s proposed reply)"

text \<open>
  Modelled from the spec: a channel before its Setup update, and the state of a channel
  after a sequence of actions; an action that fails leaves the state as it was.
\<close>

definition new_channel :: "'b \<Rightarrow> ('d, 'b) channel_state" where
  "new_channel b = \<lparr>nonce = 0, latestUpdate = None, balances = b, applied = []\<rparr>"

fun channel_run ::
  "('b \<Rightarrow> 'd update \<Rightarrow> 'b option) \<Rightarrow> ('d, 'b) channel_state \<Rightarrow> 'd channel_action list
     \<Rightarrow> ('d, 'b) channel_state" where
  "channel_run transition s [] = s"
| "channel_run transition s (a # as) =
     (case channel_step transition s a of
        Inl e \<Rightarrow> channel_run transition s as
      | Inr s' \<Rightarrow> channel_run transition s' as)"

text \<open>
  An example: a deposit adds to a single balance, a Create locks a part of it and is
  rejected when the balance does not suffice, every other update leaves it.
\<close>

definition example_transition :: "nat \<Rightarrow> nat update \<Rightarrow> nat option" where
  "example_transition b u =
     (case update_type u of
        DepositUpdate \<Rightarrow> Some (b + update_details u)
      | CreateUpdate \<Rightarrow> if update_details u \<le> b then Some (b - update_details u) else None
      | _ \<Rightarrow> Some b)"

definition proposal :: "update_type \<Rightarrow> nat \<Rightarrow> nat \<Rightarrow> nat update" where
  "proposal t n d =
     \<lparr>update_type = t, update_nonce = n, update_details = d,
      signed_by_initiator = True, signed_by_counterparty = False\<rparr>"

definition countersigned :: "update_type \<Rightarrow> nat \<Rightarrow> nat \<Rightarrow> nat update" where
  "countersigned t n d =
     \<lparr>update_type = t, update_nonce = n, update_details = d,
      signed_by_initiator = True, signed_by_counterparty = True\<rparr>"

text \<open>
  A setup and a deposit are received; a Create with nonce 4 is refused, one with nonce 3
  is applied and its replay is a no-op; then the participant resolves the transfer itself.
\<close>

definition example_actions :: "nat channel_action list" where
  "example_actions =
     [Receive (proposal SetupUpdate 1 0),
      Receive (proposal DepositUpdate 2 100),
      Receive (proposal CreateUpdate 4 30),
      Receive (proposal CreateUpdate 3 30),
      Receive (proposal CreateUpdate 3 30),
      Initiate 3 ResolveUpdate 30 (countersigned ResolveUpdate 4 30)]"

text \<open>
  The applied updates form a chain: each nonce is the one before plus 1, and the channel's
  nonce is the nonce of the last of them.
\<close>

definition nonce_chain :: "('d, 'b) channel_state \<Rightarrow> bool" where
  "nonce_chain s =
     ((\<forall>i. Suc i < length (applied s) \<longrightarrow>
          update_nonce (applied s ! Suc i) = update_nonce (applied s ! i) + 1) \<and>
      (applied s \<noteq> [] \<longrightarrow> update_nonce (last (applied s)) = nonce s))"

section \<open>Waiting for an event\<close>

text \<open>
  \<open>BrowserNode.waitFor\<close> hands its three arguments to \<open>this.engine.waitFor\<close> and returns
  what that returns; the first argument below is the engine's method.
\<close>

definition waitFor :: "('ev \<Rightarrow> nat \<Rightarrow> 'f \<Rightarrow> 'r) \<Rightarrow> 'ev \<Rightarrow> nat \<Rightarrow> 'f \<Rightarrow> 'r" where
  "waitFor engine_waitFor event timeout flt = engine_waitFor event timeout flt"

text \<open>
  Modelled from the spec: the events the engine emits, by the tick of the (injectable)
  clock at which they are emitted, counted from the call of \<open>waitFor\<close>; an event has a
  type and a payload, and a filter is a predicate on the payload.
\<close>

type_synonym ('ev, 'p) timeline = "nat \<Rightarrow> ('ev \<times> 'p) list"

definition matches :: "'ev \<Rightarrow> ('p \<Rightarrow> bool) option \<Rightarrow> 'ev \<times> 'p \<Rightarrow> bool" where
  "matches event flt occurrence =
     (fst occurrence = event \<and>
      (case flt of None \<Rightarrow> True | Some f \<Rightarrow> f (snd occurrence)))"

definition first_match :: "'ev \<Rightarrow> ('p \<Rightarrow> bool) option \<Rightarrow> ('ev \<times> 'p) list \<Rightarrow> 'p option" where
  "first_match event flt occurrences = map_option snd (find (matches event flt) occurrences)"

text \<open>
  Modelled from the spec: \<open>engine.waitFor\<close> is not under src/. The specification asks for
  "filtered waiting with a hard timeout returning not observed rather than blocking
  forever": the wait ends at the first tick before the timeout at which an event of the
  type that passes the filter is emitted, with its payload, and at the timeout otherwise,
  with \<open>undefined\<close> (\<open>None\<close>). The result is the tick at which the promise resolves,
  and the value it resolves to.
\<close>

fun engine_waitFor_from ::
  "('ev, 'p) timeline \<Rightarrow> nat \<Rightarrow> 'ev \<Rightarrow> nat \<Rightarrow> ('p \<Rightarrow> bool) option \<Rightarrow> nat \<times> 'p option" where
  "engine_waitFor_from emitted now event 0 flt = (now, None)"
| "engine_waitFor_from emitted now event (Suc remaining) flt =
     (case first_match event flt (emitted now) of
        Some payload \<Rightarrow> (now, Some payload)
      | None \<Rightarrow> engine_waitFor_from emitted (Suc now) event remaining flt)"

definition engine_waitFor ::
  "('ev, 'p) timeline \<Rightarrow> 'ev \<Rightarrow> nat \<Rightarrow> ('p \<Rightarrow> bool) option \<Rightarrow> nat \<times> 'p option" where
  "engine_waitFor emitted event timeout flt = engine_waitFor_from emitted 0 event timeout flt"

text \<open>An example: a deposit event at tick 2 and a transfer event at tick 5.\<close>

definition example_timeline :: "(string, nat) timeline" where
  "example_timeline t =
     (if t = 2 then [(''DEPOSIT_RECONCILED'', 7)]
      else if t = 5 then [(''CONDITIONAL_TRANSFER_CREATED'', 30)]
      else [])"

section \<open>Properties of BrowserNode\<close>

subsection \<open>Property reads, declaratively\<close>

lemma js_get_readable: "readable v \<Longrightarrow> js_get v k = Inr (field v k)"
  by (cases v) (simp_all add: readable_def field_def)

lemma js_get_unreadable: "\<not> readable v \<Longrightarrow> js_get v k = Inl TypeError"
  by (cases v) (simp_all add: readable_def)

lemma js_get_optional_field: "js_get_optional v k = Inr (field v k)"
  by (cases v) (simp_all add: field_def)

lemma and_then_get:
  "and_then (js_get v k) f = (if readable v then f (field v k) else Inl TypeError)"
  by (simp add: and_then_def js_get_readable js_get_unreadable)

lemma and_then_get_optional: "and_then (js_get_optional v k) f = f (field v k)"
  by (simp add: and_then_def js_get_optional_field)

lemma and_then_details:
  "and_then (latestUpdate_details chan) f =
     (if readable chan \<and> readable (field chan ''latestUpdate'') then f (details_of chan)
      else Inl TypeError)"
  by (simp add: latestUpdate_details_def and_then_get details_of_def) (simp add: and_then_def)

lemma try_request_resolved: "\<exists>r. fst (try_request this rpc build) = Resolved r"
  by (simp add: try_request_def split: sum.splits)

lemmas getter_defs =
  createNode_def getStateChannelByParticipants_def getStateChannel_def getStateChannels_def
  getTransferByRoutingId_def getTransfersByRoutingId_def getTransfer_def getActiveTransfers_def
  internalSetup_def sendDepositTx_def

lemmas exposed_defs =
  node_setup_def reconcileDeposit_def requestCollateral_def conditionalTransfer_def
  resolveTransfer_def withdraw_def sendDisputeChannelTx_def sendDefundChannelTx_def
  sendDisputeTransferTx_def sendDefundTransferTx_def txHash_payload_def

subsection \<open>Every failure is a value, two methods apart\<close>

text \<open>
  C1 (as amended). Every Result-returning method of \<open>BrowserNode\<close> other than
  \<open>internalSetup\<close> and \<open>sendDepositTx\<close> resolves, whatever the engine does and whatever
  the params are, to \<open>Result.ok\<close> or \<open>Result.fail\<close>, and its promise is never rejected;
  for \<open>getStateChannelByParticipants\<close> this holds when the params are neither
  \<open>undefined\<close> nor \<open>null\<close>, since it reads them before its \<open>try\<close> block.
  \<open>internalSetup\<close> and \<open>sendDepositTx\<close> are left unimplemented on purpose: their promise
  is always rejected with an \<open>Error\<close>, and they issue no engine request.
\<close>

theorem node_methods_resolve:
  "(m \<notin> {InternalSetup, SendDepositTx} \<and> (m = GetStateChannelByParticipants \<longrightarrow> readable params)
      \<longrightarrow> (\<exists>r. fst (invoke m this params) = Resolved r)) \<and>
   (m \<in> {InternalSetup, SendDepositTx}
      \<longrightarrow> (\<exists>msg. invoke m this params = (Rejected (Error msg), [])))"
proof (cases m)
  case GetStateChannelByParticipants
  then show ?thesis
    by (simp add: getStateChannelByParticipants_def and_then_get try_request_resolved)
qed (simp_all add: getter_defs exposed_defs try_request_resolved)

theorem node_methods_resolve_witness:
  "fst (invoke Withdraw (engine_rejecting (Thrown (JStr ''lock timeout''))) transfer_params)
     = Resolved (Result_fail (Thrown (JStr ''lock timeout''))) \<and>
   (\<exists>r. fst (invoke GetStateChannelByParticipants (engine_resolving JUndefined) transfer_params)
     = Resolved r) \<and>
   (\<exists>msg. invoke InternalSetup (engine_resolving JUndefined) transfer_params
     = (Rejected (Error msg), []))"
  using node_methods_resolve [of Withdraw transfer_params
          "engine_rejecting (Thrown (JStr ''lock timeout''))"]
        node_methods_resolve [of GetStateChannelByParticipants transfer_params
          "engine_resolving JUndefined"]
        node_methods_resolve [of InternalSetup transfer_params "engine_resolving JUndefined"]
  by (simp add: readable_def transfer_params_def withdraw_def try_request_def
        engine_rejecting_def)

text \<open>
  The claim as it stands fails: the promises of \<open>internalSetup\<close> and of \<open>sendDepositTx\<close>
  are rejected with the \<open>Error\<close> their body throws, and so is the promise of
  \<open>getStateChannelByParticipants\<close> when it is called without params.
\<close>

theorem node_methods_resolve_counterexample:
  "fst (internalSetup (engine_resolving JUndefined)) = Rejected (Error ''Method not implemented'') \<and>
   fst (sendDepositTx (engine_resolving JUndefined)) = Rejected (Error ''Method not implemented.'') \<and>
   fst (getStateChannelByParticipants (engine_resolving JUndefined) JUndefined) = Rejected TypeError"
  by (simp add: internalSetup_def sendDepositTx_def getStateChannelByParticipants_def and_then_def)

subsection \<open>The exposed operations\<close>

text \<open>
  C2 (as amended). Each exposed operation (setup, reconcileDeposit, requestCollateral,
  conditionalTransfer, resolveTransfer, withdraw and the four dispute-submission calls)
  issues exactly one engine request, built with the corresponding \<open>ChannelRpcMethod\<close> and
  the caller's params. When the engine call fails it returns \<open>Result.fail\<close> of what was
  thrown. When the engine call succeeds it returns \<open>Result.ok\<close> of the projection of the
  engine's response (for requestCollateral: of the caller's params, the response being
  ignored), provided every value whose property the projection reads is neither
  \<open>undefined\<close> nor \<open>null\<close>; otherwise it returns \<open>Result.fail\<close> of the \<open>TypeError\<close> of
  that read.
\<close>

theorem exposed_operations_envelope:
  assumes "rpc_method_of m = Some meth"
  shows "snd (invoke m this params) = [constructRpcRequest meth params] \<and>
         (case request this (constructRpcRequest meth params) of
            Inl e \<Rightarrow> fst (invoke m this params) = Resolved (Result_fail e)
          | Inr res \<Rightarrow>
              fst (invoke m this params) =
                Resolved (if list_all readable (dereferenced m params res)
                          then Result_ok (projection m params res)
                          else Result_fail TypeError))"
  using assms
  by (cases m)
     (auto simp: exposed_defs try_request_def and_then_get and_then_details
        and_then_get_optional split: sum.splits)

theorem exposed_operations_envelope_witness:
  "rpc_method_of Withdraw = Some chan_withdraw \<and>
   snd (invoke Withdraw
          (engine_resolving (JObj [(''channel'', channel_after ''create''),
                                   (''transactionHash'', JStr ''0xHash'')])) transfer_params)
     = [constructRpcRequest chan_withdraw transfer_params] \<and>
   fst (invoke Withdraw
          (engine_resolving (JObj [(''channel'', channel_after ''create''),
                                   (''transactionHash'', JStr ''0xHash'')])) transfer_params)
     = Resolved (Result_ok (JObj [(''channelAddress'', JStr ''0xChannel''),
                                  (''transferId'', JStr ''0xTransfer''),
                                  (''transactionHash'', JStr ''0xHash'')]))"
  using exposed_operations_envelope [of Withdraw chan_withdraw
          "engine_resolving (JObj [(''channel'', channel_after ''create''),
                                   (''transactionHash'', JStr ''0xHash'')])" transfer_params]
  by (simp add: engine_resolving_def channel_after_def readable_def field_def details_of_def)

text \<open>
  The claim as it stands fails twice. The engine answers a requestCollateral with
  \<open>undefined\<close> and the payload still holds the channel address, which comes from the
  params: the payload is no projection of the response. And the engine call of a
  conditionalTransfer succeeds with a channel that has no latest update: the operation
  returns \<open>Result.fail\<close> of a \<open>TypeError\<close>, not \<open>Result.ok\<close>.
\<close>

theorem exposed_operations_envelope_counterexample:
  "request (engine_resolving JUndefined) (constructRpcRequest chan_requestCollateral transfer_params)
     = Inr JUndefined \<and>
   fst (requestCollateral (engine_resolving JUndefined) transfer_params)
     = Resolved (Result_ok (JObj [(''channelAddress'', JStr ''0xChannel'')])) \<and>
   request (engine_resolving channel_without_update)
       (constructRpcRequest chan_createTransfer transfer_params)
     = Inr channel_without_update \<and>
   fst (conditionalTransfer (engine_resolving channel_without_update) transfer_params)
     = Resolved (Result_fail TypeError)"
  by (simp add: engine_resolving_def requestCollateral_def conditionalTransfer_def try_request_def
        and_then_def transfer_params_def channel_without_update_def latestUpdate_details_def)

text \<open>
  The payload of requestCollateral is a function of the params alone, and the payload of
  every other exposed operation, with the values it reads, a function of the response
  alone.
\<close>

lemma projection_requestCollateral:
  "projection RequestCollateral params res = projection RequestCollateral params res'"
  "dereferenced RequestCollateral params res = dereferenced RequestCollateral params res'"
  by simp_all

lemma projection_of_response:
  assumes "m \<noteq> RequestCollateral"
  shows "projection m params res = projection m params' res"
    and "dereferenced m params res = dereferenced m params' res"
  using assms by (cases m; simp)+

subsection \<open>The payloads of conditionalTransfer, resolveTransfer and requestCollateral\<close>

text \<open>
  C3. For every successful conditionalTransfer call, the engine call has succeeded with a
  channel whose latest update has details, and the success payload holds the
  \<open>channelAddress\<close> of that channel, the \<open>transferId\<close> of the details of its latest
  update, and the \<open>routingId\<close> of the \<open>meta\<close> of those details.
\<close>

theorem conditionalTransfer_payload:
  assumes "fst (conditionalTransfer this params) = Resolved (Result_ok payload)"
  shows "\<exists>res. request this (constructRpcRequest chan_createTransfer params) = Inr res \<and>
           readable (field res ''latestUpdate'') \<and> readable (details_of res) \<and>
           payload = JObj [(''channelAddress'', field res ''channelAddress''),
                           (''transferId'', field (details_of res) ''transferId''),
                           (''routingId'', field (field (details_of res) ''meta'') ''routingId'')]"
  using assms
  by (auto simp: conditionalTransfer_def try_request_def and_then_get and_then_details
        and_then_get_optional split: sum.splits if_splits)

theorem conditionalTransfer_payload_witness:
  "fst (conditionalTransfer (engine_resolving (channel_after ''create'')) transfer_params)
     = Resolved (Result_ok (JObj [(''channelAddress'', JStr ''0xChannel''),
                                  (''transferId'', JStr ''0xTransfer''),
                                  (''routingId'', JStr ''0xRouting'')])) \<and>
   (\<exists>res. request (engine_resolving (channel_after ''create''))
             (constructRpcRequest chan_createTransfer transfer_params) = Inr res \<and>
          field res ''channelAddress'' = JStr ''0xChannel'' \<and>
          field (details_of res) ''transferId'' = JStr ''0xTransfer'' \<and>
          field (field (details_of res) ''meta'') ''routingId'' = JStr ''0xRouting'')"
proof -
  have ok: "fst (conditionalTransfer (engine_resolving (channel_after ''create'')) transfer_params)
     = Resolved (Result_ok (JObj [(''channelAddress'', JStr ''0xChannel''),
                                  (''transferId'', JStr ''0xTransfer''),
                                  (''routingId'', JStr ''0xRouting'')]))"
    by (simp add: conditionalTransfer_def try_request_def engine_resolving_def channel_after_def
          and_then_def latestUpdate_details_def)
  from conditionalTransfer_payload [OF ok] ok show ?thesis
    by auto
qed

text \<open>
  C4. For every successful resolveTransfer call, the engine call has succeeded with a
  channel whose latest update has details, and the success payload holds the
  \<open>channelAddress\<close> of that channel, and the \<open>transferId\<close> and the \<open>routingId\<close> read
  from the details of its latest update (the Resolve update the engine has just applied).
\<close>

theorem resolveTransfer_payload:
  assumes "fst (resolveTransfer this params) = Resolved (Result_ok payload)"
  shows "\<exists>res. request this (constructRpcRequest chan_resolveTransfer params) = Inr res \<and>
           readable (field res ''latestUpdate'') \<and> readable (details_of res) \<and>
           payload = JObj [(''channelAddress'', field res ''channelAddress''),
                           (''transferId'', field (details_of res) ''transferId''),
                           (''routingId'', field (field (details_of res) ''meta'') ''routingId'')]"
  using assms
  by (auto simp: resolveTransfer_def try_request_def and_then_get and_then_details
        and_then_get_optional split: sum.splits if_splits)

theorem resolveTransfer_payload_witness:
  "fst (resolveTransfer (engine_resolving (channel_after ''resolve'')) transfer_params)
     = Resolved (Result_ok (JObj [(''channelAddress'', JStr ''0xChannel''),
                                  (''transferId'', JStr ''0xTransfer''),
                                  (''routingId'', JStr ''0xRouting'')])) \<and>
   (\<exists>res. request (engine_resolving (channel_after ''resolve''))
             (constructRpcRequest chan_resolveTransfer transfer_params) = Inr res \<and>
          field (field res ''latestUpdate'') ''type'' = JStr ''resolve'' \<and>
          field res ''channelAddress'' = JStr ''0xChannel'' \<and>
          field (details_of res) ''transferId'' = JStr ''0xTransfer'' \<and>
          field (field (details_of res) ''meta'') ''routingId'' = JStr ''0xRouting'')"
proof -
  have ok: "fst (resolveTransfer (engine_resolving (channel_after ''resolve'')) transfer_params)
     = Resolved (Result_ok (JObj [(''channelAddress'', JStr ''0xChannel''),
                                  (''transferId'', JStr ''0xTransfer''),
                                  (''routingId'', JStr ''0xRouting'')]))"
    by (simp add: resolveTransfer_def try_request_def engine_resolving_def channel_after_def
          and_then_def latestUpdate_details_def)
  have t: "field (field (channel_after ''resolve'') ''latestUpdate'') ''type'' = JStr ''resolve''"
    by (simp add: channel_after_def field_def)
  from resolveTransfer_payload [OF ok] ok t show ?thesis
    by (auto simp: engine_resolving_def)
qed

text \<open>
  C9. For every successful requestCollateral call, the success payload is the object
  whose one property, \<open>channelAddress\<close>, is the \<open>channelAddress\<close> of the caller's params;
  nothing of the engine's response is in it: with the same params, any other engine whose
  call succeeds leads to the same payload.
\<close>

theorem requestCollateral_payload:
  assumes "fst (requestCollateral this params) = Resolved (Result_ok payload)"
    and "fst (requestCollateral this' params) = Resolved (Result_ok payload')"
  shows "payload = JObj [(''channelAddress'', field params ''channelAddress'')] \<and>
         payload' = payload"
  using assms
  by (auto simp: requestCollateral_def try_request_def and_then_get
        split: sum.splits if_splits)

theorem requestCollateral_payload_witness:
  "fst (requestCollateral (engine_resolving JUndefined) transfer_params)
     = Resolved (Result_ok (JObj [(''channelAddress'', JStr ''0xChannel'')])) \<and>
   fst (requestCollateral (engine_resolving (channel_after ''deposit'')) transfer_params)
     = Resolved (Result_ok (JObj [(''channelAddress'', JStr ''0xChannel'')])) \<and>
   field transfer_params ''channelAddress'' = JStr ''0xChannel''"
proof -
  have a: "fst (requestCollateral (engine_resolving JUndefined) transfer_params)
     = Resolved (Result_ok (JObj [(''channelAddress'', JStr ''0xChannel'')]))"
    by (simp add: requestCollateral_def try_request_def engine_resolving_def transfer_params_def
          and_then_def)
  have b: "fst (requestCollateral (engine_resolving (channel_after ''deposit'')) transfer_params)
     = Resolved (Result_ok (JObj [(''channelAddress'', JStr ''0xChannel'')]))"
    by (simp add: requestCollateral_def try_request_def engine_resolving_def transfer_params_def
          and_then_def)
  from requestCollateral_payload [OF a b] a b show ?thesis
    by simp
qed

text \<open>
  C8. For every engine and every \<open>params\<close>, \<open>createNode\<close> resolves to a failure Result
  that carries a NodeError with reason \<open>MultinodeProhibitted\<close> (and the caller's params as
  its only piece of information), and it issues no engine request.
\<close>

theorem createNode_prohibited:
  "createNode this params =
     (Resolved (Result_fail (NodeError MultinodeProhibitted (JObj [(''params'', params)]))), [])"
  by (simp add: createNode_def)

section \<open>Properties of LibERC20\<close>





text \<open>
  After a call that succeeded, \<open>wrapCall\<close> returns \<open>true\<close> on empty return data, the
  decoded boolean on return data that decodes, and reverts on return data that does not.
\<close>

lemma wrapCall_gas_after_success:
  assumes "isContract env assetId"
    and "external_call env assetId callData gas = (True, returnData)"
  shows "wrapCall_gas env assetId callData gas =
           (if returnData = [] then Returned True
            else case abi_decode_bool returnData of
                   None \<Rightarrow> Reverted Empty_revert
                 | Some b \<Rightarrow> Returned b)"
  using assms by (simp add: wrapCall_gas_def revertIfCallFailed_def)



section \<open>Properties of the engine, as the specification describes it\<close>

subsection \<open>Nonces\<close>

lemma nonce_chain_append:
  assumes "nonce_chain s" and "update_nonce u = nonce s + 1"
  shows "nonce_chain (s\<lparr>nonce := update_nonce u, latestUpdate := l, balances := b,
                        applied := applied s @ [u]\<rparr>)"
  unfolding nonce_chain_def
proof (intro conjI allI impI)
  let ?s' = "s\<lparr>nonce := update_nonce u, latestUpdate := l, balances := b,
               applied := applied s @ [u]\<rparr>"
  fix i assume i: "Suc i < length (applied ?s')"
  show "update_nonce (applied ?s' ! Suc i) = update_nonce (applied ?s' ! i) + 1"
  proof (cases "Suc i < length (applied s)")
    case True
    with assms(1) show ?thesis
      by (simp add: nonce_chain_def nth_append)
  next
    case False
    with i have e: "Suc i = length (applied s)" by simp
    then have ne: "applied s \<noteq> []" by auto
    from e have "applied s ! i = last (applied s)"
      by (metis ne diff_Suc_1 last_conv_nth)
    with assms(1) ne have "update_nonce (applied s ! i) = nonce s"
      by (simp add: nonce_chain_def)
    with e assms(2) show ?thesis
      by (simp add: nth_append)
  qed
next
  show "update_nonce (last (applied (s\<lparr>nonce := update_nonce u, latestUpdate := l,
          balances := b, applied := applied s @ [u]\<rparr>))) =
        nonce (s\<lparr>nonce := update_nonce u, latestUpdate := l, balances := b,
          applied := applied s @ [u]\<rparr>)"
    by simp
qed

lemma nonce_chain_receiveUpdate:
  assumes "nonce_chain s" and "receiveUpdate transition s u = Inr s'"
  shows "nonce_chain s'"
proof (cases "already_applied s u")
  case True
  with assms show ?thesis
    by (simp add: receiveUpdate_def split: if_splits)
next
  case False
  with assms(2) obtain b where n: "update_nonce u = nonce s + 1"
    and s': "s' = s\<lparr>nonce := update_nonce (u\<lparr>signed_by_counterparty := True\<rparr>),
                    latestUpdate := Some (u\<lparr>signed_by_counterparty := True\<rparr>),
                    balances := b,
                    applied := applied s @ [u\<lparr>signed_by_counterparty := True\<rparr>]\<rparr>"
    by (auto simp: receiveUpdate_def split: if_splits option.splits)
  from n have "update_nonce (u\<lparr>signed_by_counterparty := True\<rparr>) = nonce s + 1"
    by simp
  from nonce_chain_append [OF assms(1) this] show ?thesis
    unfolding s' .
qed

lemma nonce_chain_initiate:
  assumes "nonce_chain s" and "proposeUpdate s known t d = Inr proposed"
    and "applyCounterSignedUpdate transition s proposed u = Inr s'"
  shows "nonce_chain s'"
proof -
  from assms(2) have p: "update_nonce proposed = nonce s + 1"
    by (auto simp: proposeUpdate_def split: if_splits)
  from assms(3) obtain b where u: "u = proposed\<lparr>signed_by_counterparty := True\<rparr>"
    and s': "s' = s\<lparr>nonce := update_nonce u, latestUpdate := Some u, balances := b,
                    applied := applied s @ [u]\<rparr>"
    by (auto simp: applyCounterSignedUpdate_def split: if_splits option.splits)
  from p u have "update_nonce u = nonce s + 1" by simp
  from nonce_chain_append [OF assms(1) this] show ?thesis
    unfolding s' .
qed

lemma nonce_chain_step:
  "nonce_chain s \<Longrightarrow> channel_step transition s a = Inr s' \<Longrightarrow> nonce_chain s'"
  by (cases a)
     (auto split: sum.splits dest: nonce_chain_receiveUpdate nonce_chain_initiate)

lemma nonce_chain_run:
  "nonce_chain s \<Longrightarrow> nonce_chain (channel_run transition s as)"
  by (induction as arbitrary: s) (auto split: sum.splits dest: nonce_chain_step)

lemma nonce_chain_new_channel: "nonce_chain (new_channel b)"
  by (simp add: nonce_chain_def new_channel_def)

text \<open>
  C6. For every channel and every two updates applied to it one after the other, the
  nonce of the later update is the nonce of the earlier update plus exactly 1: whatever a
  participant receives and proposes from the creation of the channel on, the nonces of
  the updates applied to the channel go up by one from each to the next.
\<close>

theorem nonce_increases_by_one:
  assumes "Suc i < length (applied (channel_run transition (new_channel b) as))"
  shows "update_nonce (applied (channel_run transition (new_channel b) as) ! Suc i) =
         update_nonce (applied (channel_run transition (new_channel b) as) ! i) + 1"
  using nonce_chain_run [OF nonce_chain_new_channel, of transition b as] assms
  by (simp add: nonce_chain_def)

theorem nonce_increases_by_one_witness:
  "applied (channel_run example_transition (new_channel 0) example_actions)
     = [countersigned SetupUpdate 1 0, countersigned DepositUpdate 2 100,
        countersigned CreateUpdate 3 30, countersigned ResolveUpdate 4 30] \<and>
   update_nonce (applied (channel_run example_transition (new_channel 0) example_actions) ! Suc 2) =
   update_nonce (applied (channel_run example_transition (new_channel 0) example_actions) ! 2) + 1"
proof -
  have a: "applied (channel_run example_transition (new_channel 0) example_actions)
     = [countersigned SetupUpdate 1 0, countersigned DepositUpdate 2 100,
        countersigned CreateUpdate 3 30, countersigned ResolveUpdate 4 30]"
    by (simp add: example_actions_def receiveUpdate_def proposeUpdate_def
          applyCounterSignedUpdate_def new_channel_def proposal_def countersigned_def
          example_transition_def already_applied_def)
  then have "Suc 2 < length (applied (channel_run example_transition (new_channel 0)
      example_actions))"
    by simp
  from nonce_increases_by_one [OF this] a show ?thesis
    by blast
qed

subsection \<open>Waiting with a hard timeout\<close>

lemma engine_waitFor_from_Some:
  assumes "engine_waitFor_from emitted now event remaining flt = (t, Some p)"
  shows "now \<le> t \<and> t < now + remaining \<and> first_match event flt (emitted t) = Some p \<and>
         (\<forall>t'. now \<le> t' \<and> t' < t \<longrightarrow> first_match event flt (emitted t') = None)"
  using assms
proof (induction remaining arbitrary: now)
  case 0
  then show ?case by auto
next
  case (Suc remaining)
  show ?case
  proof (cases "first_match event flt (emitted now)")
    case None
    with Suc.prems have "engine_waitFor_from emitted (Suc now) event remaining flt = (t, Some p)"
      by simp
    from Suc.IH [OF this]
    have ih: "Suc now \<le> t" "t < Suc now + remaining" "first_match event flt (emitted t) = Some p"
      "\<And>t'. Suc now \<le> t' \<Longrightarrow> t' < t \<Longrightarrow> first_match event flt (emitted t') = None"
      by auto
    have "first_match event flt (emitted t') = None" if "now \<le> t'" "t' < t" for t'
    proof (cases "t' = now")
      case True
      with None show ?thesis by simp
    next
      case False
      with that ih(4) [of t'] show ?thesis by simp
    qed
    with ih show ?thesis by simp
  next
    case (Some q)
    with Suc.prems show ?thesis by auto
  qed
qed

lemma engine_waitFor_from_None:
  assumes "engine_waitFor_from emitted now event remaining flt = (t, None)"
  shows "t = now + remaining \<and>
         (\<forall>t'. now \<le> t' \<and> t' < now + remaining \<longrightarrow> first_match event flt (emitted t') = None)"
  using assms
proof (induction remaining arbitrary: now)
  case 0
  then show ?case by auto
next
  case (Suc remaining)
  show ?case
  proof (cases "first_match event flt (emitted now)")
    case None
    with Suc.prems have "engine_waitFor_from emitted (Suc now) event remaining flt = (t, None)"
      by simp
    from Suc.IH [OF this]
    have ih: "t = Suc now + remaining"
      "\<And>t'. Suc now \<le> t' \<Longrightarrow> t' < Suc now + remaining \<Longrightarrow> first_match event flt (emitted t') = None"
      by auto
    have "first_match event flt (emitted t') = None" if "now \<le> t'" "t' < now + Suc remaining" for t'
    proof (cases "t' = now")
      case True
      with None show ?thesis by simp
    next
      case False
      with that ih(2) [of t'] show ?thesis by simp
    qed
    with ih(1) show ?thesis by simp
  next
    case (Some q)
    with Suc.prems show ?thesis by auto
  qed
qed

text \<open>
  C7. For every event type, timeout and optional filter, \<open>waitFor\<close> resolves no later
  than the timeout: with the payload of the first event of the type that passes the filter
  if one is emitted before the timeout, and at the timeout with \<open>undefined\<close> (not
  observed) otherwise. It neither blocks for ever nor throws.
\<close>

theorem waitFor_hard_timeout:
  "fst (waitFor (engine_waitFor emitted) event timeout flt) \<le> timeout \<and>
   (case snd (waitFor (engine_waitFor emitted) event timeout flt) of
      Some payload \<Rightarrow>
        (\<exists>t<timeout. fst (waitFor (engine_waitFor emitted) event timeout flt) = t \<and>
           first_match event flt (emitted t) = Some payload \<and>
           (\<forall>t'<t. first_match event flt (emitted t') = None))
    | None \<Rightarrow>
        fst (waitFor (engine_waitFor emitted) event timeout flt) = timeout \<and>
        (\<forall>t<timeout. first_match event flt (emitted t) = None))"
proof -
  obtain t r where w: "engine_waitFor_from emitted 0 event timeout flt = (t, r)"
    by (cases "engine_waitFor_from emitted 0 event timeout flt")
  show ?thesis
  proof (cases r)
    case None
    with w engine_waitFor_from_None [of emitted 0 event timeout flt t] show ?thesis
      by (simp add: waitFor_def engine_waitFor_def)
  next
    case (Some payload)
    with w engine_waitFor_from_Some [of emitted 0 event timeout flt t payload] show ?thesis
      by (simp add: waitFor_def engine_waitFor_def)
  qed
qed

theorem waitFor_hard_timeout_witness:
  "waitFor (engine_waitFor example_timeline) ''CONDITIONAL_TRANSFER_CREATED'' 10 None = (5, Some 30) \<and>
   waitFor (engine_waitFor example_timeline) ''CONDITIONAL_TRANSFER_CREATED'' 5 None = (5, None) \<and>
   first_match ''CONDITIONAL_TRANSFER_CREATED'' None (example_timeline 5) = Some 30 \<and>
   first_match ''CONDITIONAL_TRANSFER_CREATED'' None (example_timeline 4) = None \<and>
   fst (waitFor (engine_waitFor example_timeline) ''CONDITIONAL_TRANSFER_CREATED'' 10 None) \<le> 10"
  using waitFor_hard_timeout [of example_timeline "''CONDITIONAL_TRANSFER_CREATED''" 10 None]
        waitFor_hard_timeout [of example_timeline "''CONDITIONAL_TRANSFER_CREATED''" 5 None]
  by (simp add: waitFor_def engine_waitFor_def example_timeline_def first_match_def matches_def
        eval_nat_numeral)

end
